theory Spec2Isabelle
  imports Complex_Main
begin

section \<open>Strings as Python sees them\<close>

text \<open>
  A Python \<open>str\<close> is modelled as a \<open>string\<close>, each \<open>char\<close> standing for the code point
  of the same number (0 to 255).  Scores are Python floats; they are modelled as reals,
  so rounding in the last binary digit is not part of the model.
\<close>

text \<open>\<open>str.lower()\<close> on code points below 256: A-Z and the Latin-1 capitals move by 32.\<close>

definition lower_char :: "char \<Rightarrow> char" where
  "lower_char c =
     (let n = (of_char c :: nat)
      in if (65 \<le> n \<and> n \<le> 90) \<or> (192 \<le> n \<and> n \<le> 222 \<and> n \<noteq> 215)
         then char_of (n + 32) else c)"

definition lower :: "string \<Rightarrow> string" where
  "lower s = map lower_char s"

text \<open>The class \<open>\s\<close> of the \<open>re\<close> module on code points below 256.\<close>

definition py_isspace :: "char \<Rightarrow> bool" where
  "py_isspace c =
     (let n = (of_char c :: nat)
      in (9 \<le> n \<and> n \<le> 13) \<or> (28 \<le> n \<and> n \<le> 32) \<or> n = 133 \<or> n = 160)"

text \<open>\<open>str.isdigit()\<close>: 0-9 and the superscripts 1, 2, 3; false on the empty string.\<close>

definition digit_char :: "char \<Rightarrow> bool" where
  "digit_char c =
     (let n = (of_char c :: nat)
      in (48 \<le> n \<and> n \<le> 57) \<or> n = 178 \<or> n = 179 \<or> n = 185)"

definition isdigit :: "string \<Rightarrow> bool" where
  "isdigit s = (s \<noteq> [] \<and> list_all digit_char s)"

text \<open>\<open>s.startswith(p)\<close> and the substring test \<open>p in s\<close>.\<close>

fun startswith :: "string \<Rightarrow> string \<Rightarrow> bool" where
  "startswith s [] = True"
| "startswith [] (p # ps) = False"
| "startswith (c # cs) (p # ps) = (c = p \<and> startswith cs ps)"

fun contains :: "string \<Rightarrow> string \<Rightarrow> bool" where
  "contains [] p = (p = [])"
| "contains (c # cs) p = (startswith (c # cs) p \<or> contains cs p)"

section \<open>The regular-expression engine\<close>

text \<open>
  The module \<open>re\<close> is a library, not code of this repository.  A compiled pattern is a
  value of a type \<open>'p\<close>; the engine gives \<open>pattern.search(text)\<close> (as a truth value) and
  \<open>pattern.findall(text)\<close>.  None of the patterns of the source has a capturing group,
  so \<open>findall\<close> returns the matched strings.
\<close>

record 'p regex_engine =
  re_search :: "'p \<Rightarrow> string \<Rightarrow> bool"
  re_findall :: "'p \<Rightarrow> string \<Rightarrow> string list"

section \<open>Data model\<close>

record Message =
  sender :: string
  msg_text :: string
  timestamp :: string

datatype error = ValueError string | LoadError string | ScoringError string | IndexError

section \<open>ScamDetector (app/services/scam\_detector\_hybrid.py)\<close>

text \<open>
  The detector object: the two artefacts read by \<open>joblib.load\<close> and the eight compiled
  pattern lists.  \<open>vectorizer\<close> is \<open>vectorizer.transform\<close>, \<open>model\<close> is
  \<open>model.predict_proba\<close>; both are opaque and may raise.
\<close>

record ('p, 'f) ScamDetector =
  model :: "'f \<Rightarrow> error + real list list"
  vectorizer :: "string list \<Rightarrow> error + 'f"
  urgency_re :: "'p list"
  threat_re :: "'p list"
  request_re :: "'p list"
  sensitive_re :: "'p list"
  impersonation_re :: "'p list"
  money_re :: "'p list"
  upi_scam_re :: "'p list"
  financial_coercion_re :: "'p list"

text \<open>
  \<open>__init__\<close>: both loads happen in the constructor, outside any \<open>try\<close>; an exception of
  \<open>joblib.load\<close> leaves the constructor.  \<open>load_model\<close> and \<open>load_vectorizer\<close> are
  \<open>joblib.load\<close> on the two paths; \<open>pats\<close> is what \<open>_compile_patterns\<close> builds.
\<close>

definition ScamDetector_init ::
  "(string \<Rightarrow> error + ('f \<Rightarrow> error + real list list)) \<Rightarrow>
   (string \<Rightarrow> error + (string list \<Rightarrow> error + 'f)) \<Rightarrow>
   ('p list \<times> 'p list \<times> 'p list \<times> 'p list \<times> 'p list \<times> 'p list \<times> 'p list \<times> 'p list) \<Rightarrow>
   error + ('p, 'f) ScamDetector" where
  "ScamDetector_init load_model load_vectorizer pats =
     (case load_model ''app/ai_model/models/spam_model.pkl'' of
        Inl e \<Rightarrow> Inl e
      | Inr m \<Rightarrow>
          (case load_vectorizer ''app/ai_model/models/tfidf_vectorizer.pkl'' of
             Inl e \<Rightarrow> Inl e
           | Inr v \<Rightarrow>
               (case pats of (u, t, r, s, i, mo, up, fc) \<Rightarrow>
                  Inr \<lparr>model = m, vectorizer = v, urgency_re = u, threat_re = t,
                       request_re = r, sensitive_re = s, impersonation_re = i,
                       money_re = mo, upi_scam_re = up, financial_coercion_re = fc\<rparr>)))"

definition count_pattern_matches :: "'p regex_engine \<Rightarrow> string \<Rightarrow> 'p list \<Rightarrow> nat" where
  "count_pattern_matches re text patterns =
     length (filter (\<lambda>pattern. re_search re pattern text) patterns)"

text \<open>\<open>list(set(keywords))\<close>: the order of the result is not fixed by Python; \<open>remdups\<close>
  picks one.\<close>

definition extract_matched_keywords ::
  "'p regex_engine \<Rightarrow> string \<Rightarrow> 'p list \<Rightarrow> string list" where
  "extract_matched_keywords re text patterns =
     remdups (concat (map (\<lambda>pattern. re_findall re pattern text) patterns))"

text \<open>
  One of the eight blocks of \<open>analyze_message\<close>:
  \<^verbatim>\<open>count = self._count_pattern_matches(text, family)
  if count > 0:
      rule_score += min(count * w, cap)
      keywords.extend(self._extract_matched_keywords(text, family))\<close>
  on the pair \<open>(rule_score, keywords)\<close>.
\<close>

definition family_step ::
  "'p regex_engine \<Rightarrow> string \<Rightarrow> 'p list \<Rightarrow> real \<Rightarrow> real \<Rightarrow>
   real \<times> string list \<Rightarrow> real \<times> string list" where
  "family_step re text family w cap acc =
     (let count = count_pattern_matches re text family
      in if count > 0
         then (fst acc + min (real count * w) cap,
               snd acc @ extract_matched_keywords re text family)
         else acc)"

text \<open>Part 1 of \<open>analyze_message\<close>: \<open>rule_score\<close> and \<open>keywords\<close> after the eight blocks.\<close>

definition rule_based ::
  "('p, 'f) ScamDetector \<Rightarrow> 'p regex_engine \<Rightarrow> string \<Rightarrow> real \<times> string list" where
  "rule_based d re text =
     (let acc = (0, []);
          acc = family_step re text (urgency_re d) 0.05 0.15 acc;
          acc = family_step re text (threat_re d) 0.08 0.25 acc;
          acc = family_step re text (request_re d) 0.05 0.15 acc;
          acc = family_step re text (sensitive_re d) 0.08 0.25 acc;
          acc = family_step re text (impersonation_re d) 0.05 0.10 acc;
          acc = family_step re text (money_re d) 0.05 0.10 acc;
          acc = family_step re text (upi_scam_re d) 0.10 0.20 acc;
          acc = family_step re text (financial_coercion_re d) 0.10 0.20 acc
      in acc)"

definition rule_score :: "('p, 'f) ScamDetector \<Rightarrow> 'p regex_engine \<Rightarrow> string \<Rightarrow> real" where
  "rule_score d re text = fst (rule_based d re text)"

text \<open>Part 2: the body of the \<open>try\<close>; the two subscripts \<open>[0]\<close> raise on an empty array.\<close>

definition ml_predict :: "('p, 'f) ScamDetector \<Rightarrow> string \<Rightarrow> error + real" where
  "ml_predict d text =
     (case vectorizer d [text] of
        Inl e \<Rightarrow> Inl e
      | Inr features \<Rightarrow>
          (case model d features of
             Inl e \<Rightarrow> Inl e
           | Inr rows \<Rightarrow>
               (case rows of
                  [] \<Rightarrow> Inl IndexError
                | probs # _ \<Rightarrow>
                    (case probs of [] \<Rightarrow> Inl IndexError | p # _ \<Rightarrow> Inr p))))"

text \<open>\<open>ml_score = 0.0\<close>, overwritten only if the \<open>try\<close> body completes.\<close>

definition ml_score :: "('p, 'f) ScamDetector \<Rightarrow> string \<Rightarrow> real" where
  "ml_score d text = (case ml_predict d text of Inl _ \<Rightarrow> 0 | Inr p \<Rightarrow> p)"

definition analyze_message ::
  "('p, 'f) ScamDetector \<Rightarrow> 'p regex_engine \<Rightarrow> Message \<Rightarrow> real \<times> string list" where
  "analyze_message d re message =
     (let text = lower (msg_text message);
          (rule_score, keywords) = rule_based d re text;
          ml_score = ml_score d text;
          final_score = max rule_score ml_score
      in (min final_score 1, remdups keywords))"

text \<open>
  The rule score in the words of the specification (section 4.1): a table of families,
  each with its per-match weight and cap; the family scores are summed and the total is
  clipped to [0,1].
\<close>

definition pattern_families :: "('p, 'f) ScamDetector \<Rightarrow> ('p list \<times> real \<times> real) list" where
  "pattern_families d =
     [(urgency_re d, 0.05, 0.15), (threat_re d, 0.08, 0.25), (request_re d, 0.05, 0.15),
      (sensitive_re d, 0.08, 0.25), (impersonation_re d, 0.05, 0.10), (money_re d, 0.05, 0.10),
      (upi_scam_re d, 0.10, 0.20), (financial_coercion_re d, 0.10, 0.20)]"

definition family_score :: "'p regex_engine \<Rightarrow> string \<Rightarrow> 'p list \<times> real \<times> real \<Rightarrow> real" where
  "family_score re text fam =
     (case fam of (patterns, w, cap) \<Rightarrow>
        min (real (count_pattern_matches re text patterns) * w) cap)"

definition clip01 :: "real \<Rightarrow> real" where
  "clip01 x = max 0 (min x 1)"

definition spec_rule_score ::
  "('p, 'f) ScamDetector \<Rightarrow> 'p regex_engine \<Rightarrow> string \<Rightarrow> real" where
  "spec_rule_score d re text =
     clip01 (sum_list (map (family_score re text) (pattern_families d)))"

text \<open>The matched strings of one family, as a set.\<close>

definition family_keywords :: "'p regex_engine \<Rightarrow> string \<Rightarrow> 'p list \<Rightarrow> string set" where
  "family_keywords re text patterns =
     (if count_pattern_matches re text patterns > 0
      then (\<Union>pattern \<in> set patterns. set (re_findall re pattern text)) else {})"

section \<open>Session data (app/models/schemas.py)\<close>

text \<open>
  Modelled from the spec: the class \<open>ExtractedIntelligence\<close> of app/models/schemas.py is
  not among the sources.  Its five fields are the ones the services read and write;
  each is a set of strings (specification, section 3).
\<close>

record ExtractedIntelligence =
  bankAccounts :: "string set"
  upiIds :: "string set"
  phoneNumbers :: "string set"
  phishingLinks :: "string set"
  suspiciousKeywords :: "string set"

definition empty_intelligence :: ExtractedIntelligence where
  "empty_intelligence =
     \<lparr>bankAccounts = {}, upiIds = {}, phoneNumbers = {}, phishingLinks = {},
      suspiciousKeywords = {}\<rparr>"

text \<open>
  Modelled from the spec: the method \<open>ExtractedIntelligence.merge\<close> of
  app/models/schemas.py is not among the sources.  It is the field-wise set union
  (specification, sections 3 and 4.5).
\<close>

definition merge :: "ExtractedIntelligence \<Rightarrow> ExtractedIntelligence \<Rightarrow> ExtractedIntelligence" where
  "merge a b =
     \<lparr>bankAccounts = bankAccounts a \<union> bankAccounts b,
      upiIds = upiIds a \<union> upiIds b,
      phoneNumbers = phoneNumbers a \<union> phoneNumbers b,
      phishingLinks = phishingLinks a \<union> phishingLinks b,
      suspiciousKeywords = suspiciousKeywords a \<union> suspiciousKeywords b\<rparr>"

text \<open>
  Modelled from the spec: the class \<open>SessionState\<close> of app/models/schemas.py is not
  among the sources.  The fields are those of section 3 of the specification that the
  services use, and \<open>updatedAt\<close>, which \<open>update_session\<close> writes.
\<close>

record SessionState =
  sessionId :: string
  messages :: "Message list"
  totalMessages :: int
  scamSuspected :: bool
  scamDetected :: bool
  scamConfidenceScore :: real
  extractedIntelligence :: ExtractedIntelligence
  callbackSent :: bool
  agentNotes :: string
  updatedAt :: string

section \<open>Analysis of a session (ScamDetector.analyze\_session)\<close>

text \<open>The test \<open>msg.sender.lower() == "scammer"\<close>.\<close>

definition from_scammer :: "Message \<Rightarrow> bool" where
  "from_scammer msg = (lower (sender msg) = ''scammer'')"

definition scammer_messages :: "SessionState \<Rightarrow> Message list" where
  "scammer_messages session = filter from_scammer (messages session)"

text \<open>
  The loop of \<open>analyze_session\<close> over \<open>session.messages\<close>, on the triple
  \<open>(total_score, all_keywords, message_count)\<close>.
\<close>

fun session_loop ::
  "('p, 'f) ScamDetector \<Rightarrow> 'p regex_engine \<Rightarrow> real \<times> string list \<times> nat \<Rightarrow>
   Message list \<Rightarrow> real \<times> string list \<times> nat" where
  "session_loop d re acc [] = acc"
| "session_loop d re (total_score, all_keywords, message_count) (msg # msgs) =
     (if from_scammer msg
      then (case analyze_message d re msg of
              (msg_score, msg_keywords) \<Rightarrow>
                session_loop d re
                  (total_score + msg_score, all_keywords @ msg_keywords, message_count + 1) msgs)
      else session_loop d re (total_score, all_keywords, message_count) msgs)"

definition analyze_session ::
  "('p, 'f) ScamDetector \<Rightarrow> 'p regex_engine \<Rightarrow> SessionState \<Rightarrow>
   real \<times> bool \<times> bool \<times> string list" where
  "analyze_session d re session =
     (case session_loop d re (0, [], 0) (messages session) of
        (total_score, all_keywords, message_count) \<Rightarrow>
          (let avg_score = total_score / real (max message_count 1);
               diversity_bonus = min (real (card (set all_keywords)) * 0.02) 0.2;
               final_score = min (avg_score + diversity_bonus) 1;
               is_suspected = (final_score \<ge> 0.3);
               is_confirmed = (final_score \<ge> 0.51 \<and> message_count \<ge> 2)
           in (final_score, is_suspected, is_confirmed, remdups all_keywords)))"

text \<open>The mean and the keyword set of the specification (section 4.6).\<close>

definition session_mean :: "('p, 'f) ScamDetector \<Rightarrow> 'p regex_engine \<Rightarrow> SessionState \<Rightarrow> real" where
  "session_mean d re session =
     sum_list (map (\<lambda>m. fst (analyze_message d re m)) (scammer_messages session))
       / real (max (length (scammer_messages session)) 1)"

definition session_keywords ::
  "('p, 'f) ScamDetector \<Rightarrow> 'p regex_engine \<Rightarrow> SessionState \<Rightarrow> string set" where
  "session_keywords d re session =
     (\<Union>m \<in> set (scammer_messages session). set (snd (analyze_message d re m)))"

section \<open>SessionService (app/services/session\_service.py)\<close>

text \<open>
  The global dictionary \<open>_sessions\<close> is a map from session ids to session states; every
  operation takes the store and returns the new one.  \<open>now\<close> stands for
  \<open>datetime.utcnow().isoformat()\<close>.  Python mutates the session object it fetched
  under \<open>session_id\<close> in place, so the entry under that key changes as well as the one
  \<open>update_session\<close> writes under \<open>session.sessionId\<close>.
\<close>

type_synonym store = "string \<rightharpoonup> SessionState"

definition get_session :: "store \<Rightarrow> string \<Rightarrow> SessionState option" where
  "get_session sessions session_id = sessions session_id"

definition update_session :: "string \<Rightarrow> store \<Rightarrow> SessionState \<Rightarrow> store \<times> SessionState" where
  "update_session now sessions session =
     (let session = session\<lparr>updatedAt := now\<rparr>
      in (sessions(sessionId session \<mapsto> session), session))"

definition not_found :: "string \<Rightarrow> error" where
  "not_found session_id = ValueError (''Session '' @ session_id @ '' not found'')"

definition in_place ::
  "string \<Rightarrow> store \<times> SessionState \<Rightarrow> error + store \<times> SessionState" where
  "in_place session_id r = (case r of (sessions, session) \<Rightarrow>
     Inr (sessions(session_id \<mapsto> session), session))"

definition add_message ::
  "string \<Rightarrow> store \<Rightarrow> string \<Rightarrow> Message \<Rightarrow> error + store \<times> SessionState" where
  "add_message now sessions session_id message =
     (case get_session sessions session_id of
        None \<Rightarrow> Inl (not_found session_id)
      | Some session \<Rightarrow>
          (let session = session\<lparr>messages := messages session @ [message]\<rparr>;
               session = session\<lparr>totalMessages := totalMessages session + 1\<rparr>
           in in_place session_id (update_session now sessions session)))"

definition update_scam_status ::
  "string \<Rightarrow> store \<Rightarrow> string \<Rightarrow> bool \<Rightarrow> bool \<Rightarrow> real \<Rightarrow> error + store \<times> SessionState" where
  "update_scam_status now sessions session_id suspected detected confidence =
     (case get_session sessions session_id of
        None \<Rightarrow> Inl (not_found session_id)
      | Some session \<Rightarrow>
          (let session = session\<lparr>scamSuspected := (suspected \<or> scamSuspected session)\<rparr>;
               session = session\<lparr>scamDetected := (detected \<or> scamDetected session)\<rparr>;
               session = session\<lparr>scamConfidenceScore :=
                           max confidence (scamConfidenceScore session)\<rparr>
           in in_place session_id (update_session now sessions session)))"

definition update_intelligence ::
  "string \<Rightarrow> store \<Rightarrow> string \<Rightarrow> ExtractedIntelligence \<Rightarrow> error + store \<times> SessionState" where
  "update_intelligence now sessions session_id intelligence =
     (case get_session sessions session_id of
        None \<Rightarrow> Inl (not_found session_id)
      | Some session \<Rightarrow>
          (let session = session\<lparr>extractedIntelligence :=
                           merge (extractedIntelligence session) intelligence\<rparr>
           in in_place session_id (update_session now sessions session)))"

definition mark_callback_sent ::
  "string \<Rightarrow> store \<Rightarrow> string \<Rightarrow> string \<Rightarrow> error + store \<times> SessionState" where
  "mark_callback_sent now sessions session_id notes =
     (case get_session sessions session_id of
        None \<Rightarrow> Inl (not_found session_id)
      | Some session \<Rightarrow>
          (let session = session\<lparr>callbackSent := True\<rparr>;
               session = (if notes \<noteq> [] then session\<lparr>agentNotes := notes\<rparr> else session)
           in in_place session_id (update_session now sessions session)))"

section \<open>CallbackService.should\_send\_callback (app/services/callback\_service.py)\<close>

text \<open>
  \<open>Settings\<close> (app/config.py) with the one field the gate reads.  The method
  \<open>ExtractedIntelligence.is_empty\<close> belongs to app/models/schemas.py, which is not among
  the sources; it is a parameter of the gate.
\<close>

record Settings =
  min_messages_for_callback :: int

definition default_settings :: Settings where
  "default_settings = \<lparr>min_messages_for_callback = 3\<rparr>"

definition should_send_callback ::
  "Settings \<Rightarrow> (ExtractedIntelligence \<Rightarrow> bool) \<Rightarrow> SessionState \<Rightarrow> bool" where
  "should_send_callback settings is_empty session =
     (if callbackSent session then False
      else if \<not> scamDetected session then False
      else if totalMessages session < min_messages_for_callback settings then False
      else if is_empty (extractedIntelligence session)
           then (if scamConfidenceScore session < 0.8 then False else True)
      else True)"

section \<open>IntelligenceExtractor (app/services/intelligence\_extractor.py)\<close>

record 'p IntelligenceExtractor =
  bank_re :: "'p list"
  upi_re :: "'p list"
  phone_re :: "'p list"
  link_re :: "'p list"

definition extract_with_patterns ::
  "'p regex_engine \<Rightarrow> string \<Rightarrow> 'p list \<Rightarrow> string list" where
  "extract_with_patterns re text patterns =
     remdups (concat (map (\<lambda>pattern. re_findall re pattern text) patterns))"

text \<open>\<open>re.sub(r'[-\s]', '', match)\<close> and \<open>clean[-4:]\<close>.\<close>

definition strip_separators :: "string \<Rightarrow> string" where
  "strip_separators match = filter (\<lambda>c. \<not> (c = CHR ''-'' \<or> py_isspace c)) match"

definition last4 :: "string \<Rightarrow> string" where
  "last4 clean = drop (length clean - 4) clean"

fun filter_bank_accounts_loop :: "string list \<Rightarrow> string list \<Rightarrow> string list" where
  "filter_bank_accounts_loop valid_accounts [] = valid_accounts"
| "filter_bank_accounts_loop valid_accounts (match # rest) =
     (let clean = strip_separators match
      in if 9 \<le> length clean \<and> length clean \<le> 18 \<and> isdigit clean
         then (let masked = ''XXXX-XXXX-'' @ last4 clean
               in filter_bank_accounts_loop
                    (if masked \<notin> set valid_accounts then valid_accounts @ [masked]
                     else valid_accounts) rest)
         else filter_bank_accounts_loop valid_accounts rest)"

definition filter_bank_accounts :: "string list \<Rightarrow> string list" where
  "filter_bank_accounts matches = filter_bank_accounts_loop [] matches"

text \<open>\<open>s.split(c)\<close> for a one-character separator.\<close>

fun split_on :: "char \<Rightarrow> string \<Rightarrow> string list" where
  "split_on c [] = [[]]"
| "split_on c (x # xs) =
     (if x = c then [] # split_on c xs
      else (case split_on c xs of [] \<Rightarrow> [[x]] | part # parts \<Rightarrow> (x # part) # parts))"

definition upi_suffixes :: "string list" where
  "upi_suffixes = [''upi'', ''ybl'', ''paytm'', ''okaxis'', ''okhdfcbank'',
                   ''oksbi'', ''apl'', ''ibl'', ''icici'', ''sbi'', ''hdfc'']"

definition email_domains :: "string list" where
  "email_domains = [''gmail.com'', ''yahoo.com'', ''hotmail.com'', ''outlook.com'', ''email.com'']"

fun filter_upi_ids_loop :: "string list \<Rightarrow> string list \<Rightarrow> string list" where
  "filter_upi_ids_loop valid_upis [] = valid_upis"
| "filter_upi_ids_loop valid_upis (match # rest) =
     (if CHR ''@'' \<in> set match
      then (let parts = split_on (CHR ''@'') match
            in if length parts = 2
               then (let suffix = lower (parts ! 1)
                     in if list_ex (\<lambda>s. contains suffix s) upi_suffixes \<or> length suffix \<le> 10
                        then (if suffix \<notin> set email_domains
                              then filter_upi_ids_loop (valid_upis @ [lower match]) rest
                              else filter_upi_ids_loop valid_upis rest)
                        else filter_upi_ids_loop valid_upis rest)
               else filter_upi_ids_loop valid_upis rest)
      else filter_upi_ids_loop valid_upis rest)"

definition filter_upi_ids :: "string list \<Rightarrow> string list" where
  "filter_upi_ids matches = remdups (filter_upi_ids_loop [] matches)"

text \<open>\<open>re.sub(r'[-\s+]', '', match)\<close>.\<close>

definition strip_phone :: "string \<Rightarrow> string" where
  "strip_phone match =
     filter (\<lambda>c. \<not> (c = CHR ''-'' \<or> py_isspace c \<or> c = CHR ''+'')) match"

fun filter_phone_numbers_loop :: "string list \<Rightarrow> string list \<Rightarrow> string list" where
  "filter_phone_numbers_loop valid_phones [] = valid_phones"
| "filter_phone_numbers_loop valid_phones (match # rest) =
     (let clean = strip_phone match;
          clean = (if startswith clean ''91'' \<and> length clean > 10 then drop 2 clean
                   else if startswith clean ''0'' \<and> length clean > 10 then drop 1 clean
                   else clean)
      in if length clean = 10 \<and> hd clean \<in> set ''6789''
         then (let formatted = ''+91'' @ clean
               in filter_phone_numbers_loop
                    (if formatted \<notin> set valid_phones then valid_phones @ [formatted]
                     else valid_phones) rest)
         else filter_phone_numbers_loop valid_phones rest)"

definition filter_phone_numbers :: "string list \<Rightarrow> string list" where
  "filter_phone_numbers matches = filter_phone_numbers_loop [] matches"

definition safe_domains :: "string list" where
  "safe_domains = [''google.com'', ''facebook.com'', ''twitter.com'',
                   ''instagram.com'', ''youtube.com'', ''linkedin.com'']"

fun filter_links_loop :: "string list \<Rightarrow> string list \<Rightarrow> string list" where
  "filter_links_loop suspicious_links [] = suspicious_links"
| "filter_links_loop suspicious_links (match # rest) =
     (let is_safe = list_ex (\<lambda>domain. contains (lower match) domain) safe_domains
      in if \<not> is_safe
         then (let match = (if \<not> startswith match ''http'' then ''http://'' @ match else match)
               in filter_links_loop (suspicious_links @ [match]) rest)
         else filter_links_loop suspicious_links rest)"

definition filter_links :: "string list \<Rightarrow> string list" where
  "filter_links matches = remdups (filter_links_loop [] matches)"

definition SUSPICIOUS_KEYWORDS :: "string list" where
  "SUSPICIOUS_KEYWORDS =
     [''urgent'', ''immediately'', ''blocked'', ''suspended'', ''verify'',
      ''confirm'', ''update'', ''otp'', ''pin'', ''password'', ''cvv'',
      ''bank'', ''account'', ''upi'', ''transfer'', ''payment'', ''kyc'',
      ''aadhaar'', ''pan'', ''prize'', ''lottery'', ''winner'', ''reward'',
      ''cashback'', ''refund'', ''claim'', ''expire'', ''deadline'',
      ''legal action'', ''police'', ''arrest'', ''court'', ''penalty'']"

definition extract_keywords :: "string \<Rightarrow> string list" where
  "extract_keywords text =
     (let text_lower = lower text
      in remdups (filter (\<lambda>keyword. contains text_lower keyword) SUSPICIOUS_KEYWORDS))"

text \<open>The lists the filters return become the sets of the record.\<close>

definition extract_from_message ::
  "'p IntelligenceExtractor \<Rightarrow> 'p regex_engine \<Rightarrow> Message \<Rightarrow> ExtractedIntelligence" where
  "extract_from_message ex re message =
     (let text = msg_text message;
          bank_matches = extract_with_patterns re text (bank_re ex);
          upi_matches = extract_with_patterns re text (upi_re ex);
          phone_matches = extract_with_patterns re text (phone_re ex);
          link_matches = extract_with_patterns re text (link_re ex)
      in \<lparr>bankAccounts = set (filter_bank_accounts bank_matches),
          upiIds = set (filter_upi_ids upi_matches),
          phoneNumbers = set (filter_phone_numbers phone_matches),
          phishingLinks = set (filter_links link_matches),
          suspiciousKeywords = set (extract_keywords text)\<rparr>)"

fun extract_loop ::
  "'p IntelligenceExtractor \<Rightarrow> 'p regex_engine \<Rightarrow> ExtractedIntelligence \<Rightarrow> Message list \<Rightarrow>
   ExtractedIntelligence" where
  "extract_loop ex re combined [] = combined"
| "extract_loop ex re combined (message # rest) =
     (if from_scammer message
      then extract_loop ex re (merge combined (extract_from_message ex re message)) rest
      else extract_loop ex re combined rest)"

definition extract_from_session ::
  "'p IntelligenceExtractor \<Rightarrow> 'p regex_engine \<Rightarrow> SessionState \<Rightarrow> ExtractedIntelligence" where
  "extract_from_session ex re session = extract_loop ex re empty_intelligence (messages session)"

section \<open>Concrete values\<close>

text \<open>A literal engine: a pattern is a word, found where it occurs as a substring.\<close>

definition literal_engine :: "string regex_engine" where
  "literal_engine =
     \<lparr>re_search = (\<lambda>p t. contains t p),
      re_findall = (\<lambda>p t. if contains t p then [p] else [])\<rparr>"

definition demo_detector :: "(string, string list) ScamDetector" where
  "demo_detector =
     \<lparr>model = (\<lambda>f. Inr [[0.2, 0.8]]),
      vectorizer = (\<lambda>ts. Inr ts),
      urgency_re = [''urgent'', ''immediately'', ''today''],
      threat_re = [''blocked'', ''suspend'', ''police'', ''court''],
      request_re = [''verify'', ''confirm'', ''share''],
      sensitive_re = [''otp'', ''pin'', ''cvv'', ''upi''],
      impersonation_re = [''bank'', ''rbi''],
      money_re = [''prize'', ''lottery''],
      upi_scam_re = [''share upi'', ''upi blocked''],
      financial_coercion_re = [''account blocked'', ''card blocked'']\<rparr>"

definition loud_text :: string where
  "loud_text = ''URGENT immediately today suspend police court verify confirm otp pin cvv bank rbi prize lottery share upi blocked account blocked card blocked''"

definition loud_message :: Message where
  "loud_message = \<lparr>sender = ''scammer'', msg_text = loud_text, timestamp = ''t0''\<rparr>"

definition short_message :: Message where
  "short_message = \<lparr>sender = ''Scammer'', msg_text = ''Share OTP today'', timestamp = ''t1''\<rparr>"

definition user_message :: Message where
  "user_message = \<lparr>sender = ''user'', msg_text = ''who is this'', timestamp = ''t2''\<rparr>"

definition fresh_session :: SessionState where
  "fresh_session =
     \<lparr>sessionId = ''s1'', messages = [], totalMessages = 0, scamSuspected = False,
      scamDetected = False, scamConfidenceScore = 0,
      extractedIntelligence = empty_intelligence, callbackSent = False, agentNotes = [],
      updatedAt = ''t0''\<rparr>"

definition no_artifacts :: "ExtractedIntelligence \<Rightarrow> bool" where
  "no_artifacts i =
     (bankAccounts i = {} \<and> upiIds i = {} \<and> phoneNumbers i = {} \<and> phishingLinks i = {}
      \<and> suspiciousKeywords i = {})"

definition one_message_session :: SessionState where
  "one_message_session = fresh_session\<lparr>messages := [loud_message], totalMessages := 1\<rparr>"

definition two_message_session :: SessionState where
  "two_message_session =
     fresh_session\<lparr>messages := [loud_message, user_message, loud_message],
                    totalMessages := 3\<rparr>"

definition demo_matches :: "string list" where
  "demo_matches = [''1234-5678-9012-3456'', ''12345'', ''123456789012'', ''9999 0000 3456'']"

definition demo_extractor :: "string IntelligenceExtractor" where
  "demo_extractor =
     \<lparr>bank_re = [''123456789012''], upi_re = [''scam@ybl'', ''help@gmail.com''],
      phone_re = [''+91-9876543210''], link_re = [''bit.ly/x1'', ''www.google.com/a'']\<rparr>"

definition pay_message :: Message where
  "pay_message =
     \<lparr>sender = ''scammer'',
      msg_text = ''Urgent pay scam@ybl acct 123456789012 call +91-9876543210 bit.ly/x1 help@gmail.com www.google.com/a'',
      timestamp = ''t3''\<rparr>"

definition offline_detector :: "(string, string list) ScamDetector" where
  "offline_detector = demo_detector\<lparr>vectorizer := (\<lambda>ts. Inl (ScoringError ''not fitted''))\<rparr>"

section \<open>Rule score: lemmas\<close>

lemma family_step_fst:
  "0 \<le> w \<Longrightarrow> 0 \<le> cap \<Longrightarrow>
   fst (family_step re text family w cap acc) =
     fst acc + min (real (count_pattern_matches re text family) * w) cap"
  by (simp add: family_step_def Let_def)

lemma family_step_snd:
  "set (snd (family_step re text family w cap acc)) =
     set (snd acc) \<union> family_keywords re text family"
  by (simp add: family_step_def Let_def family_keywords_def extract_matched_keywords_def)

lemma rule_score_sum:
  "rule_score d re text = sum_list (map (family_score re text) (pattern_families d))"
  by (simp add: rule_score_def rule_based_def Let_def family_step_fst
      pattern_families_def family_score_def)

lemma family_score_nonneg: "fam \<in> set (pattern_families d) \<Longrightarrow> 0 \<le> family_score re text fam"
  by (auto simp: pattern_families_def family_score_def)

lemma rule_score_nonneg: "0 \<le> rule_score d re text"
  unfolding rule_score_sum
  by (rule sum_list_nonneg) (auto simp: family_score_nonneg)

lemma rule_based_keywords:
  "set (snd (rule_based d re text)) =
     (\<Union>fam \<in> set (pattern_families d). family_keywords re text (fst fam))"
  by (simp add: rule_based_def Let_def family_step_snd pattern_families_def Un_assoc)

lemma analyze_message_fst:
  "fst (analyze_message d re message) =
     min (max (rule_score d re (lower (msg_text message)))
              (ml_score d (lower (msg_text message)))) 1"
  by (simp add: analyze_message_def Let_def rule_score_def split: prod.split)

lemma analyze_message_snd:
  "snd (analyze_message d re message) =
     remdups (snd (rule_based d re (lower (msg_text message))))"
  by (simp add: analyze_message_def Let_def split: prod.split)

lemma analyze_message_range:
  "0 \<le> fst (analyze_message d re message)" "fst (analyze_message d re message) \<le> 1"
  using rule_score_nonneg [of d re "lower (msg_text message)"]
  by (simp_all add: analyze_message_fst)

section \<open>The callback gate\<close>

text \<open>
  Claim C9.  For every session state, \<open>should_send_callback\<close> returns true if and only
  if the callback has not been sent, the scam is confirmed, the number of messages
  has reached \<open>min_messages_for_callback\<close> (3 by default), and the extracted
  intelligence is non-empty or the confidence score is at least 0.8; in particular it
  returns false whenever \<open>totalMessages < min_messages_for_callback\<close>, whatever
  \<open>scamDetected\<close> is.
\<close>

theorem should_send_callback_iff:
  "(should_send_callback settings is_empty session \<longleftrightarrow>
      \<not> callbackSent session \<and> scamDetected session
      \<and> totalMessages session \<ge> min_messages_for_callback settings
      \<and> (\<not> is_empty (extractedIntelligence session) \<or> scamConfidenceScore session \<ge> 0.8))
   \<and> (totalMessages session < min_messages_for_callback settings \<longrightarrow>
        \<not> should_send_callback settings is_empty session)
   \<and> min_messages_for_callback default_settings = 3"
  by (auto simp: should_send_callback_def default_settings_def)

theorem should_send_callback_witness:
  "totalMessages (fresh_session\<lparr>scamDetected := True, totalMessages := 2\<rparr>)
     < min_messages_for_callback default_settings
   \<and> \<not> should_send_callback default_settings no_artifacts
         (fresh_session\<lparr>scamDetected := True, totalMessages := 2\<rparr>)
   \<and> should_send_callback default_settings no_artifacts
         (fresh_session\<lparr>scamDetected := True, totalMessages := 3,
                         scamConfidenceScore := 0.9\<rparr>)"
  using should_send_callback_iff [of default_settings no_artifacts
          "fresh_session\<lparr>scamDetected := True, totalMessages := 2\<rparr>"]
        should_send_callback_iff [of default_settings no_artifacts
          "fresh_session\<lparr>scamDetected := True, totalMessages := 3,
                          scamConfidenceScore := 0.9\<rparr>"]
  by (simp add: default_settings_def fresh_session_def)

section \<open>Scam status of a session\<close>

lemma update_scam_status_found:
  "get_session sessions session_id = Some session \<Longrightarrow>
   update_scam_status now sessions session_id suspected detected conf =
     Inr ((sessions(sessionId session \<mapsto>
             session\<lparr>scamSuspected := (suspected \<or> scamSuspected session),
                     scamDetected := (detected \<or> scamDetected session),
                     scamConfidenceScore := max conf (scamConfidenceScore session),
                     updatedAt := now\<rparr>))
          (session_id \<mapsto>
             session\<lparr>scamSuspected := (suspected \<or> scamSuspected session),
                     scamDetected := (detected \<or> scamDetected session),
                     scamConfidenceScore := max conf (scamConfidenceScore session),
                     updatedAt := now\<rparr>),
          session\<lparr>scamSuspected := (suspected \<or> scamSuspected session),
                  scamDetected := (detected \<or> scamDetected session),
                  scamConfidenceScore := max conf (scamConfidenceScore session),
                  updatedAt := now\<rparr>)"
  by (simp add: update_scam_status_def update_session_def in_place_def Let_def)

text \<open>
  Claim C4, as amended.  On a session that exists, \<open>update_scam_status\<close> with any
  arguments returns a session in which \<open>scamSuspected\<close> and \<open>scamDetected\<close> are the old
  values or-ed with the arguments (so neither goes from true to false) and
  \<open>scamConfidenceScore\<close> is the maximum of the old value and the supplied confidence
  (so it never decreases); the same session is what the store then holds under the id.
  The update keeps \<open>scamDetected \<longrightarrow> scamSuspected\<close> when the arguments satisfy
  \<open>detected \<longrightarrow> suspected\<close> and the session satisfied it before.  A session that does
  not exist gives the error and leaves nothing changed.
\<close>

theorem update_scam_status_monotone:
  "(get_session sessions session_id = None \<longrightarrow>
      update_scam_status now sessions session_id suspected detected conf =
        Inl (not_found session_id))
   \<and> (\<forall>session. get_session sessions session_id = Some session \<longrightarrow>
        (\<exists>sessions' session'.
           update_scam_status now sessions session_id suspected detected conf =
             Inr (sessions', session')
           \<and> get_session sessions' session_id = Some session'
           \<and> scamSuspected session' = (suspected \<or> scamSuspected session)
           \<and> scamDetected session' = (detected \<or> scamDetected session)
           \<and> (scamSuspected session \<longrightarrow> scamSuspected session')
           \<and> (scamDetected session \<longrightarrow> scamDetected session')
           \<and> scamConfidenceScore session' = max conf (scamConfidenceScore session)
           \<and> scamConfidenceScore session \<le> scamConfidenceScore session'
           \<and> ((detected \<longrightarrow> suspected)
                \<and> (scamDetected session \<longrightarrow> scamSuspected session)
                \<longrightarrow> (scamDetected session' \<longrightarrow> scamSuspected session'))))"
proof (intro conjI allI impI)
  assume "get_session sessions session_id = None"
  then show "update_scam_status now sessions session_id suspected detected conf =
      Inl (not_found session_id)"
    by (simp add: update_scam_status_def)
next
  fix session
  assume found: "get_session sessions session_id = Some session"
  show "\<exists>sessions' session'.
           update_scam_status now sessions session_id suspected detected conf =
             Inr (sessions', session')
           \<and> get_session sessions' session_id = Some session'
           \<and> scamSuspected session' = (suspected \<or> scamSuspected session)
           \<and> scamDetected session' = (detected \<or> scamDetected session)
           \<and> (scamSuspected session \<longrightarrow> scamSuspected session')
           \<and> (scamDetected session \<longrightarrow> scamDetected session')
           \<and> scamConfidenceScore session' = max conf (scamConfidenceScore session)
           \<and> scamConfidenceScore session \<le> scamConfidenceScore session'
           \<and> ((detected \<longrightarrow> suspected)
                \<and> (scamDetected session \<longrightarrow> scamSuspected session)
                \<longrightarrow> (scamDetected session' \<longrightarrow> scamSuspected session'))"
  proof -
    let ?s = "session\<lparr>scamSuspected := (suspected \<or> scamSuspected session),
                     scamDetected := (detected \<or> scamDetected session),
                     scamConfidenceScore := max conf (scamConfidenceScore session),
                     updatedAt := now\<rparr>"
    let ?st = "(sessions(sessionId session \<mapsto> ?s))(session_id \<mapsto> ?s)"
    have "update_scam_status now sessions session_id suspected detected conf = Inr (?st, ?s)"
      by (rule update_scam_status_found [OF found])
    moreover have "get_session ?st session_id = Some ?s"
      by (simp add: get_session_def)
    moreover have "scamSuspected ?s = (suspected \<or> scamSuspected session)"
      and "scamDetected ?s = (detected \<or> scamDetected session)"
      and "scamConfidenceScore ?s = max conf (scamConfidenceScore session)"
      by simp_all
    ultimately show ?thesis
      by (intro exI [of _ ?st] exI [of _ ?s]) auto
  qed
qed

theorem update_scam_status_monotone_witness:
  "get_session [''s1'' \<mapsto> fresh_session] ''s1'' = Some fresh_session
   \<and> (\<exists>sessions' session'.
         update_scam_status ''t1'' [''s1'' \<mapsto> fresh_session] ''s1'' True True 0.7 =
           Inr (sessions', session')
         \<and> scamSuspected session' \<and> scamDetected session'
         \<and> scamConfidenceScore session' = 0.7)
   \<and> get_session [''s1'' \<mapsto> fresh_session] ''s2'' = None
   \<and> update_scam_status ''t1'' [''s1'' \<mapsto> fresh_session] ''s2'' True True 0.7 =
       Inl (not_found ''s2'')"
proof -
  have found: "get_session [''s1'' \<mapsto> fresh_session] ''s1'' = Some fresh_session"
    by (simp add: get_session_def)
  have missing: "get_session [''s1'' \<mapsto> fresh_session] ''s2'' = None"
    by (simp add: get_session_def)
  from update_scam_status_monotone
         [of "[''s1'' \<mapsto> fresh_session]" "''s1''" "''t1''" True True "0.7"] found
  obtain sessions' session' where
    "update_scam_status ''t1'' [''s1'' \<mapsto> fresh_session] ''s1'' True True 0.7 =
       Inr (sessions', session')"
    "scamSuspected session'" "scamDetected session'"
    "scamConfidenceScore session' = max 0.7 (scamConfidenceScore fresh_session)"
    by auto
  moreover have "max 0.7 (scamConfidenceScore fresh_session) = 0.7"
    by (simp add: fresh_session_def)
  moreover from update_scam_status_monotone
         [of "[''s1'' \<mapsto> fresh_session]" "''s2''" "''t1''" True True "0.7"] missing
  have "update_scam_status ''t1'' [''s1'' \<mapsto> fresh_session] ''s2'' True True 0.7 =
       Inl (not_found ''s2'')"
    by blast
  ultimately show ?thesis using found missing by auto
qed

text \<open>
  Claim C4 as stated fails: a call with \<open>suspected = False\<close> and \<open>detected = True\<close> on
  a session with both flags false leaves \<open>scamDetected\<close> true and \<open>scamSuspected\<close>
  false.
\<close>

theorem update_scam_status_detected_unsuspected:
  "\<exists>sessions' session'.
     update_scam_status ''t1'' [''s1'' \<mapsto> fresh_session] ''s1'' False True 0.9 =
       Inr (sessions', session')
     \<and> scamDetected session' \<and> \<not> scamSuspected session'"
proof -
  have found: "get_session [''s1'' \<mapsto> fresh_session] ''s1'' = Some fresh_session"
    by (simp add: get_session_def)
  show ?thesis
    unfolding update_scam_status_found [OF found]
    by (simp add: fresh_session_def)
qed

section \<open>The rule score and the message score\<close>

lemma rule_score_upper: "rule_score d re text \<le> 1.4"
proof -
  have "rule_score d re text \<le> 0.15 + (0.25 + (0.15 + (0.25 + (0.10 + (0.10 + (0.20 + 0.20))))))"
    unfolding rule_score_sum pattern_families_def family_score_def
    by simp
  then show ?thesis by simp
qed

lemma spec_rule_score_eq: "spec_rule_score d re text = min (rule_score d re text) 1"
  using rule_score_nonneg [of d re "text"]
  by (simp add: spec_rule_score_def clip01_def rule_score_sum)

lemma ml_score_offline:
  "ml_score (d\<lparr>vectorizer := (\<lambda>ts. Inl e)\<rparr>) text = 0"
  by (simp add: ml_score_def ml_predict_def)

lemma rule_score_offline:
  "rule_score (d\<lparr>vectorizer := v\<rparr>) re text = rule_score d re text"
  by (simp add: rule_score_def rule_based_def)

lemma lower_loud_text:
  "lower loud_text = ''urgent immediately today suspend police court verify confirm otp pin cvv bank rbi prize lottery share upi blocked account blocked card blocked''"
  by code_simp

lemma loud_counts:
  "count_pattern_matches literal_engine (lower loud_text) (urgency_re demo_detector) = 3"
  "count_pattern_matches literal_engine (lower loud_text) (threat_re demo_detector) = 4"
  "count_pattern_matches literal_engine (lower loud_text) (request_re demo_detector) = 3"
  "count_pattern_matches literal_engine (lower loud_text) (sensitive_re demo_detector) = 4"
  "count_pattern_matches literal_engine (lower loud_text) (impersonation_re demo_detector) = 2"
  "count_pattern_matches literal_engine (lower loud_text) (money_re demo_detector) = 2"
  "count_pattern_matches literal_engine (lower loud_text) (upi_scam_re demo_detector) = 2"
  "count_pattern_matches literal_engine (lower loud_text) (financial_coercion_re demo_detector) = 2"
  unfolding lower_loud_text
  by (simp_all add: count_pattern_matches_def literal_engine_def demo_detector_def)

lemma loud_rule_score: "rule_score demo_detector literal_engine (lower loud_text) = 7 / 5"
  by (simp add: rule_score_sum pattern_families_def family_score_def loud_counts)

lemma demo_ml_score: "ml_score demo_detector text = 0.2"
  by (simp add: ml_score_def ml_predict_def demo_detector_def)

lemma loud_message_score: "fst (analyze_message demo_detector literal_engine loud_message) = 1"
  by (simp add: analyze_message_fst loud_message_def loud_rule_score demo_ml_score)

lemma lower_short_text: "lower (msg_text short_message) = ''share otp today''"
  unfolding short_message_def by code_simp

lemma short_counts:
  "count_pattern_matches literal_engine ''share otp today'' (urgency_re demo_detector) = 1"
  "count_pattern_matches literal_engine ''share otp today'' (threat_re demo_detector) = 0"
  "count_pattern_matches literal_engine ''share otp today'' (request_re demo_detector) = 1"
  "count_pattern_matches literal_engine ''share otp today'' (sensitive_re demo_detector) = 1"
  "count_pattern_matches literal_engine ''share otp today'' (impersonation_re demo_detector) = 0"
  "count_pattern_matches literal_engine ''share otp today'' (money_re demo_detector) = 0"
  "count_pattern_matches literal_engine ''share otp today'' (upi_scam_re demo_detector) = 0"
  "count_pattern_matches literal_engine ''share otp today'' (financial_coercion_re demo_detector) = 0"
  by (simp_all add: count_pattern_matches_def literal_engine_def demo_detector_def)

lemma short_rule_score: "rule_score demo_detector literal_engine ''share otp today'' = 0.18"
  by (simp add: rule_score_sum pattern_families_def family_score_def short_counts)

text \<open>
  Claim C2, as amended.  For every message text, the variable \<open>rule_score\<close> of
  \<open>ScamDetector.analyze_message\<close> is the sum over the eight pattern families of
  \<open>min (count * weight) cap\<close>, where the count is the number of patterns of the family
  that match, the caps are 0.15, 0.25, 0.15, 0.25, 0.10, 0.10, 0.20, 0.20 and every
  per-match weight lies in [0.05, 0.10].  This sum is not clipped by itself: it lies
  between 0 and 1.40.  The clipping to at most 1 is applied to the score that is
  returned, the maximum of the rule score and the classifier score; when the
  classifier contributes 0 the returned score is the family total clipped to [0,1].
  The returned keyword list has no duplicates and holds exactly the strings found by
  the families that matched.  The function is a pure function of the detector, the
  engine and the message: the source assigns to local variables only.
\<close>

theorem analyze_message_rule_score:
  "rule_score d re text = sum_list (map (family_score re text) (pattern_families d))
   \<and> map (\<lambda>fam. snd (snd fam)) (pattern_families d)
       = [0.15, 0.25, 0.15, 0.25, 0.10, 0.10, 0.20, 0.20]
   \<and> (\<forall>fam \<in> set (pattern_families d). 0.05 \<le> fst (snd fam) \<and> fst (snd fam) \<le> 0.10)
   \<and> 0 \<le> rule_score d re text \<and> rule_score d re text \<le> 1.4
   \<and> fst (analyze_message d re message)
       = min (max (rule_score d re (lower (msg_text message)))
                  (ml_score d (lower (msg_text message)))) 1
   \<and> (ml_score d (lower (msg_text message)) = 0 \<longrightarrow>
        fst (analyze_message d re message)
          = clip01 (sum_list (map (family_score re (lower (msg_text message)))
                                  (pattern_families d))))
   \<and> set (snd (analyze_message d re message))
       = (\<Union>fam \<in> set (pattern_families d).
            family_keywords re (lower (msg_text message)) (fst fam))
   \<and> distinct (snd (analyze_message d re message))"
proof (intro conjI)
  show "rule_score d re text = sum_list (map (family_score re text) (pattern_families d))"
    by (rule rule_score_sum)
  show "map (\<lambda>fam. snd (snd fam)) (pattern_families d)
       = [0.15, 0.25, 0.15, 0.25, 0.10, 0.10, 0.20, 0.20]"
    by (simp add: pattern_families_def)
  show "\<forall>fam \<in> set (pattern_families d). 0.05 \<le> fst (snd fam) \<and> fst (snd fam) \<le> 0.10"
    by (simp add: pattern_families_def)
  show "0 \<le> rule_score d re text"
    by (rule rule_score_nonneg)
  show "rule_score d re text \<le> 1.4"
    by (rule rule_score_upper)
  show "fst (analyze_message d re message)
       = min (max (rule_score d re (lower (msg_text message)))
                  (ml_score d (lower (msg_text message)))) 1"
    by (rule analyze_message_fst)
  show "ml_score d (lower (msg_text message)) = 0 \<longrightarrow>
        fst (analyze_message d re message)
          = clip01 (sum_list (map (family_score re (lower (msg_text message)))
                                  (pattern_families d)))"
    using rule_score_nonneg [of d re "lower (msg_text message)"]
    by (simp add: analyze_message_fst clip01_def rule_score_sum)
  show "set (snd (analyze_message d re message))
       = (\<Union>fam \<in> set (pattern_families d).
            family_keywords re (lower (msg_text message)) (fst fam))"
    by (simp add: analyze_message_snd rule_based_keywords)
  show "distinct (snd (analyze_message d re message))"
    by (simp add: analyze_message_snd)
qed

theorem analyze_message_rule_score_witness:
  "ml_score offline_detector (lower (msg_text short_message)) = 0
   \<and> list_all (\<lambda>fam. 0.05 \<le> fst (snd fam) \<and> fst (snd fam) \<le> 0.10)
         (pattern_families offline_detector)
   \<and> fst (analyze_message offline_detector literal_engine short_message) = 0.18"
proof -
  note claim = analyze_message_rule_score
         [of offline_detector literal_engine "lower (msg_text short_message)" short_message]
  have off: "ml_score offline_detector (lower (msg_text short_message)) = 0"
    unfolding offline_detector_def by (rule ml_score_offline)
  have "rule_score offline_detector literal_engine (lower (msg_text short_message)) = 0.18"
    unfolding lower_short_text offline_detector_def rule_score_offline
    by (rule short_rule_score)
  with claim have total: "sum_list (map (family_score literal_engine (lower (msg_text short_message)))
                      (pattern_families offline_detector)) = 0.18"
    by simp
  from claim off have "fst (analyze_message offline_detector literal_engine short_message)
      = clip01 (sum_list (map (family_score literal_engine (lower (msg_text short_message)))
                      (pattern_families offline_detector)))"
    by blast
  then have "fst (analyze_message offline_detector literal_engine short_message) = 0.18"
    unfolding total by (simp add: clip01_def)
  moreover from claim have "\<forall>fam \<in> set (pattern_families offline_detector).
         0.05 \<le> fst (snd fam) \<and> fst (snd fam) \<le> 0.10"
    by blast
  then have "list_all (\<lambda>fam. 0.05 \<le> fst (snd fam) \<and> fst (snd fam) \<le> 0.10)
         (pattern_families offline_detector)"
    unfolding list_all_iff .
  ultimately show ?thesis using off by blast
qed

text \<open>
  Claim C2 as stated fails: on a text that saturates all eight families the rule score
  is 1.40, not a value clipped to [0,1].
\<close>

theorem rule_score_exceeds_one:
  "rule_score demo_detector literal_engine (lower loud_text) = 7 / 5
   \<and> \<not> rule_score demo_detector literal_engine (lower loud_text) \<le> 1
   \<and> rule_score demo_detector literal_engine (lower loud_text)
       \<noteq> spec_rule_score demo_detector literal_engine (lower loud_text)"
  by (simp add: loud_rule_score spec_rule_score_eq)

text \<open>
  Claim C10, as amended.  For every message, \<open>ScamDetector.analyze_message\<close> returns
  \<open>min (max rule_score ml_score) 1\<close>: the two scores are combined by their maximum, not
  by a weighted sum.  The returned score is at least the rule score clipped to 1 (the
  rule score itself can exceed 1), and it is at least what the same detector returns
  when the classifier fails, which is the rule score clipped to 1: the classifier can
  raise a rule-based verdict and never lowers it.
\<close>

theorem analyze_message_max_combination:
  "fst (analyze_message d re message)
     = min (max (rule_score d re (lower (msg_text message)))
                (ml_score d (lower (msg_text message)))) 1
   \<and> min (rule_score d re (lower (msg_text message))) 1 \<le> fst (analyze_message d re message)
   \<and> fst (analyze_message (d\<lparr>vectorizer := (\<lambda>ts. Inl e)\<rparr>) re message)
       = min (rule_score d re (lower (msg_text message))) 1
   \<and> fst (analyze_message (d\<lparr>vectorizer := (\<lambda>ts. Inl e)\<rparr>) re message)
       \<le> fst (analyze_message d re message)"
  using rule_score_nonneg [of d re "lower (msg_text message)"]
  by (simp add: analyze_message_fst ml_score_offline rule_score_offline)

theorem analyze_message_max_combination_witness:
  "fst (analyze_message demo_detector literal_engine short_message) = 0.2
   \<and> fst (analyze_message offline_detector literal_engine short_message) = 0.18"
  using analyze_message_max_combination
          [of demo_detector literal_engine short_message "ScoringError ''not fitted''"]
  by (simp add: lower_short_text short_rule_score demo_ml_score offline_detector_def)

text \<open>
  Claim C10 as stated fails: on the saturating text the returned score is 1 and the
  rule score is 1.40.
\<close>

theorem analyze_message_below_rule_score:
  "fst (analyze_message demo_detector literal_engine loud_message) = 1
   \<and> rule_score demo_detector literal_engine (lower (msg_text loud_message)) = 7 / 5
   \<and> fst (analyze_message demo_detector literal_engine loud_message)
       < rule_score demo_detector literal_engine (lower (msg_text loud_message))"
  by (simp add: loud_message_score) (simp add: loud_message_def loud_rule_score)

section \<open>The session score\<close>

lemma session_loop_eq:
  "session_loop d re (total_score, all_keywords, message_count) msgs =
     (total_score + sum_list (map (\<lambda>m. fst (analyze_message d re m)) (filter from_scammer msgs)),
      all_keywords @ concat (map (\<lambda>m. snd (analyze_message d re m)) (filter from_scammer msgs)),
      message_count + length (filter from_scammer msgs))"
proof (induction msgs arbitrary: total_score all_keywords message_count)
  case Nil
  show ?case by simp
next
  case (Cons msg msgs)
  show ?case
  proof (cases "from_scammer msg")
    case True
    obtain s k where sk: "analyze_message d re msg = (s, k)"
      by (cases "analyze_message d re msg")
    with True Cons.IH [of "total_score + s" "all_keywords @ k" "message_count + 1"]
    show ?thesis by simp
  next
    case False
    with Cons.IH [of total_score all_keywords message_count]
    show ?thesis by simp
  qed
qed

lemma message_scores_nonneg:
  "0 \<le> sum_list (map (\<lambda>m. fst (analyze_message d re m)) msgs)"
  by (rule sum_list_nonneg) (auto simp: analyze_message_range)

lemma analyze_session_eq:
  "analyze_session d re session =
     (let final_score = min (session_mean d re session
                             + min (real (card (session_keywords d re session)) * 0.02) 0.2) 1
      in (final_score, final_score \<ge> 0.3,
          final_score \<ge> 0.51 \<and> length (scammer_messages session) \<ge> 2,
          remdups (concat (map (\<lambda>m. snd (analyze_message d re m))
                               (scammer_messages session)))))"
  by (simp add: analyze_session_def session_loop_eq Let_def session_mean_def
      session_keywords_def scammer_messages_def)

lemma session_mean_nonneg: "0 \<le> session_mean d re session"
  unfolding session_mean_def
  by (intro divide_nonneg_nonneg message_scores_nonneg) simp

text \<open>
  Claim C3.  For every session state, the score \<open>analyze_session\<close> returns is the mean of
  the scores of the messages whose sender, in lower case, is "scammer" (the sum divided
  by the number of such messages, by 1 when there is none), plus the diversity bonus
  \<open>min (0.02 * number of distinct keywords) 0.2\<close>, clipped to [0,1].  The session is
  reported suspected iff this score is at least 0.3, and confirmed iff the score is at
  least 0.51 and at least two scammer messages have been seen; with fewer than two
  scammer messages it is never confirmed.
\<close>

theorem analyze_session_score:
  "fst (analyze_session d re session)
     = min (session_mean d re session
            + min (0.02 * real (card (session_keywords d re session))) 0.2) 1
   \<and> fst (analyze_session d re session)
       = clip01 (session_mean d re session
                 + min (0.02 * real (card (session_keywords d re session))) 0.2)
   \<and> 0 \<le> fst (analyze_session d re session) \<and> fst (analyze_session d re session) \<le> 1
   \<and> (fst (snd (analyze_session d re session)) \<longleftrightarrow> fst (analyze_session d re session) \<ge> 0.3)
   \<and> (fst (snd (snd (analyze_session d re session))) \<longleftrightarrow>
        fst (analyze_session d re session) \<ge> 0.51 \<and> length (scammer_messages session) \<ge> 2)
   \<and> (length (scammer_messages session) < 2 \<longrightarrow>
        \<not> fst (snd (snd (analyze_session d re session))))"
proof -
  define bonus where "bonus = min (0.02 * real (card (session_keywords d re session))) 0.2"
  define final where "final = min (session_mean d re session + bonus) 1"
  have nonneg: "0 \<le> session_mean d re session + bonus"
    using session_mean_nonneg [of d re session] by (simp add: bonus_def)
  have eq: "analyze_session d re session =
      (final, final \<ge> 0.3, final \<ge> 0.51 \<and> length (scammer_messages session) \<ge> 2,
       remdups (concat (map (\<lambda>m. snd (analyze_message d re m)) (scammer_messages session))))"
    unfolding analyze_session_eq Let_def final_def bonus_def
    by (simp only: mult.commute)
  have range: "0 \<le> final" "final \<le> 1" "final = clip01 (session_mean d re session + bonus)"
    using nonneg by (simp_all add: final_def clip01_def)
  show ?thesis
    unfolding eq fst_conv snd_conv
    using range unfolding bonus_def [symmetric] final_def [symmetric]
    by auto
qed

lemma from_scammer_demo:
  "from_scammer loud_message" "\<not> from_scammer user_message" "from_scammer short_message"
  unfolding from_scammer_def loud_message_def user_message_def short_message_def
  by code_simp+

theorem analyze_session_score_witness:
  "length (scammer_messages one_message_session) < 2
   \<and> fst (analyze_session demo_detector literal_engine one_message_session) = 1
   \<and> fst (snd (analyze_session demo_detector literal_engine one_message_session))
   \<and> \<not> fst (snd (snd (analyze_session demo_detector literal_engine one_message_session)))
   \<and> fst (analyze_session demo_detector literal_engine two_message_session) = 1
   \<and> fst (snd (snd (analyze_session demo_detector literal_engine two_message_session)))"
proof -
  have one: "scammer_messages one_message_session = [loud_message]"
    by (simp add: scammer_messages_def one_message_session_def from_scammer_demo)
  have two: "scammer_messages two_message_session = [loud_message, loud_message]"
    by (simp add: scammer_messages_def two_message_session_def from_scammer_demo)
  have m1: "session_mean demo_detector literal_engine one_message_session = 1"
    by (simp add: session_mean_def one loud_message_score)
  have m2: "session_mean demo_detector literal_engine two_message_session = 1"
    by (simp add: session_mean_def two loud_message_score)
  have s1: "fst (analyze_session demo_detector literal_engine one_message_session) = 1"
    using analyze_session_score [of demo_detector literal_engine one_message_session]
    by (simp add: m1 min_def)
  have s2: "fst (analyze_session demo_detector literal_engine two_message_session) = 1"
    using analyze_session_score [of demo_detector literal_engine two_message_session]
    by (simp add: m2 min_def)
  show ?thesis
    using analyze_session_score [of demo_detector literal_engine one_message_session]
          analyze_session_score [of demo_detector literal_engine two_message_session]
    unfolding s1 s2 by (simp add: one two)
qed

section \<open>Masked bank accounts\<close>

lemma filter_bank_accounts_loop_set:
  "set (filter_bank_accounts_loop valid_accounts matches) =
     set valid_accounts \<union>
     {''XXXX-XXXX-'' @ last4 (strip_separators m) | m.
        m \<in> set matches \<and> 9 \<le> length (strip_separators m)
        \<and> length (strip_separators m) \<le> 18 \<and> isdigit (strip_separators m)}"
proof (induction matches arbitrary: valid_accounts)
  case Nil
  show ?case by simp
next
  case (Cons match rest)
  show ?case
    unfolding filter_bank_accounts_loop.simps Let_def
    by (auto simp: Cons.IH)
qed

lemma filter_bank_accounts_loop_distinct:
  "distinct valid_accounts \<Longrightarrow> distinct (filter_bank_accounts_loop valid_accounts matches)"
  by (induction matches arbitrary: valid_accounts) (simp_all add: Let_def)

lemma not_digit_mask: "filter digit_char ''XXXX-XXXX-'' = []"
  by code_simp

lemma isdigit_filter: "isdigit s \<Longrightarrow> filter digit_char (last4 s) = last4 s"
proof -
  assume "isdigit s"
  then have "\<forall>c \<in> set s. digit_char c"
    by (simp add: isdigit_def list_all_iff)
  then have "\<forall>c \<in> set (last4 s). digit_char c"
    unfolding last4_def by (meson in_set_dropD)
  then show ?thesis by simp
qed

text \<open>
  Claim C6.  For every list of raw candidates, \<open>_filter_bank_accounts\<close> keeps a candidate
  only if, with the characters \<open>-\<close> and white space removed, it has 9 to 18 characters,
  all of them digits; what it stores for a kept candidate is exactly \<open>XXXX-XXXX-\<close>
  followed by the last four digits of the stripped candidate, once.  So every stored
  string has 14 characters, and the digits it contains are those last four and no
  others.
\<close>

theorem filter_bank_accounts_masked:
  "set (filter_bank_accounts matches) =
     {''XXXX-XXXX-'' @ last4 (strip_separators m) | m.
        m \<in> set matches \<and> 9 \<le> length (strip_separators m)
        \<and> length (strip_separators m) \<le> 18 \<and> isdigit (strip_separators m)}
   \<and> distinct (filter_bank_accounts matches)
   \<and> (\<forall>a \<in> set (filter_bank_accounts matches). \<exists>m \<in> set matches.
         9 \<le> length (strip_separators m) \<and> length (strip_separators m) \<le> 18
         \<and> list_all digit_char (strip_separators m)
         \<and> a = ''XXXX-XXXX-'' @ last4 (strip_separators m)
         \<and> length a = 14
         \<and> filter digit_char a = last4 (strip_separators m)
         \<and> length (filter digit_char a) = 4)"
proof (intro conjI ballI)
  show set_eq: "set (filter_bank_accounts matches) =
     {''XXXX-XXXX-'' @ last4 (strip_separators m) | m.
        m \<in> set matches \<and> 9 \<le> length (strip_separators m)
        \<and> length (strip_separators m) \<le> 18 \<and> isdigit (strip_separators m)}"
    by (simp add: filter_bank_accounts_def filter_bank_accounts_loop_set)
  show "distinct (filter_bank_accounts matches)"
    by (simp add: filter_bank_accounts_def filter_bank_accounts_loop_distinct)
  fix a
  assume "a \<in> set (filter_bank_accounts matches)"
  then obtain m where m: "m \<in> set matches" "9 \<le> length (strip_separators m)"
      "length (strip_separators m) \<le> 18" "isdigit (strip_separators m)"
      and a: "a = ''XXXX-XXXX-'' @ last4 (strip_separators m)"
    unfolding set_eq by blast
  have len4: "length (last4 (strip_separators m)) = 4"
    using m(2) by (simp add: last4_def)
  have digits: "filter digit_char a = last4 (strip_separators m)"
    unfolding a filter_append not_digit_mask using isdigit_filter [OF m(4)] by simp
  have "list_all digit_char (strip_separators m)"
    using m(4) by (simp add: isdigit_def)
  moreover have "length a = 14"
    unfolding a using len4 by simp
  ultimately show "\<exists>m \<in> set matches.
         9 \<le> length (strip_separators m) \<and> length (strip_separators m) \<le> 18
         \<and> list_all digit_char (strip_separators m)
         \<and> a = ''XXXX-XXXX-'' @ last4 (strip_separators m)
         \<and> length a = 14
         \<and> filter digit_char a = last4 (strip_separators m)
         \<and> length (filter digit_char a) = 4"
    using m a digits len4 by (intro bexI [of _ m]) simp_all
qed

lemma demo_matches_filtered:
  "filter_bank_accounts demo_matches = [''XXXX-XXXX-3456'', ''XXXX-XXXX-9012'']"
  unfolding demo_matches_def by code_simp

theorem filter_bank_accounts_masked_witness:
  "filter_bank_accounts demo_matches = [''XXXX-XXXX-3456'', ''XXXX-XXXX-9012'']
   \<and> list_all (\<lambda>a. length a = 14 \<and> length (filter digit_char a) = 4)
         (filter_bank_accounts demo_matches)"
proof -
  from filter_bank_accounts_masked [of demo_matches]
  have "\<forall>a \<in> set (filter_bank_accounts demo_matches).
         length a = 14 \<and> length (filter digit_char a) = 4"
    by blast
  then have "list_all (\<lambda>a. length a = 14 \<and> length (filter digit_char a) = 4)
         (filter_bank_accounts demo_matches)"
    unfolding list_all_iff .
  with demo_matches_filtered show ?thesis by blast
qed

section \<open>Merging intelligence\<close>

lemma merge_idem: "merge (merge a b) b = merge a b"
  by (simp add: merge_def Un_assoc)

lemma update_intelligence_found:
  "get_session sessions session_id = Some session \<Longrightarrow>
   update_intelligence now sessions session_id intelligence =
     Inr ((sessions(sessionId session \<mapsto>
             session\<lparr>extractedIntelligence := merge (extractedIntelligence session) intelligence,
                     updatedAt := now\<rparr>))
          (session_id \<mapsto>
             session\<lparr>extractedIntelligence := merge (extractedIntelligence session) intelligence,
                     updatedAt := now\<rparr>),
          session\<lparr>extractedIntelligence := merge (extractedIntelligence session) intelligence,
                  updatedAt := now\<rparr>)"
  by (simp add: update_intelligence_def update_session_def in_place_def Let_def)

lemma extract_loop_append:
  "extract_loop ex re combined (xs @ ys) = extract_loop ex re (extract_loop ex re combined xs) ys"
  by (induction xs arbitrary: combined) simp_all

lemma extract_loop_twice:
  "extract_loop ex re combined [message, message] = extract_loop ex re combined [message]"
  by (simp add: merge_idem)

text \<open>
  Claim C7.  Merging the intelligence extracted from a message into a running
  \<open>ExtractedIntelligence\<close> twice gives the same five artifact sets as merging it once:
  for \<open>merge\<close> itself, for two calls of \<open>SessionService.update_intelligence\<close> on a stored
  session, and for \<open>extract_from_session\<close> on a history in which the message occurs
  twice in a row.
\<close>

theorem intelligence_merge_idempotent:
  "merge (merge running (extract_from_message ex re message)) (extract_from_message ex re message)
     = merge running (extract_from_message ex re message)
   \<and> (get_session sessions session_id = Some session \<longrightarrow>
        (\<exists>st1 s1 st2 s2.
           update_intelligence now1 sessions session_id (extract_from_message ex re message)
             = Inr (st1, s1)
           \<and> update_intelligence now2 st1 session_id (extract_from_message ex re message)
               = Inr (st2, s2)
           \<and> extractedIntelligence s1
               = merge (extractedIntelligence session) (extract_from_message ex re message)
           \<and> extractedIntelligence s2 = extractedIntelligence s1))
   \<and> extract_from_session ex re (history\<lparr>messages := msgs @ [message, message]\<rparr>)
       = extract_from_session ex re (history\<lparr>messages := msgs @ [message]\<rparr>)"
proof (intro conjI impI)
  show "merge (merge running (extract_from_message ex re message))
          (extract_from_message ex re message)
        = merge running (extract_from_message ex re message)"
    by (rule merge_idem)
next
  let ?i = "extract_from_message ex re message"
  assume found: "get_session sessions session_id = Some session"
  let ?s1 = "session\<lparr>extractedIntelligence := merge (extractedIntelligence session) ?i,
                      updatedAt := now1\<rparr>"
  let ?st1 = "(sessions(sessionId session \<mapsto> ?s1))(session_id \<mapsto> ?s1)"
  have first: "update_intelligence now1 sessions session_id ?i = Inr (?st1, ?s1)"
    by (rule update_intelligence_found [OF found])
  have found1: "get_session ?st1 session_id = Some ?s1"
    by (simp add: get_session_def)
  let ?s2 = "?s1\<lparr>extractedIntelligence := merge (extractedIntelligence ?s1) ?i,
                  updatedAt := now2\<rparr>"
  let ?st2 = "(?st1(sessionId ?s1 \<mapsto> ?s2))(session_id \<mapsto> ?s2)"
  have second: "update_intelligence now2 ?st1 session_id ?i = Inr (?st2, ?s2)"
    by (rule update_intelligence_found [OF found1])
  have "extractedIntelligence ?s1 = merge (extractedIntelligence session) ?i"
    by simp
  moreover have "extractedIntelligence ?s2 = extractedIntelligence ?s1"
    by (simp add: merge_idem)
  ultimately show "\<exists>st1 s1 st2 s2.
           update_intelligence now1 sessions session_id ?i = Inr (st1, s1)
           \<and> update_intelligence now2 st1 session_id ?i = Inr (st2, s2)
           \<and> extractedIntelligence s1 = merge (extractedIntelligence session) ?i
           \<and> extractedIntelligence s2 = extractedIntelligence s1"
    using first second by blast
next
  show "extract_from_session ex re (history\<lparr>messages := msgs @ [message, message]\<rparr>)
       = extract_from_session ex re (history\<lparr>messages := msgs @ [message]\<rparr>)"
    unfolding extract_from_session_def
    by (simp add: extract_loop_append extract_loop_twice del: extract_loop.simps)
qed

lemma pay_message_intelligence:
  "extract_from_message demo_extractor literal_engine pay_message =
     \<lparr>bankAccounts = {''XXXX-XXXX-9012''}, upiIds = {''scam@ybl''},
      phoneNumbers = {''+919876543210''}, phishingLinks = {''http://bit.ly/x1''},
      suspiciousKeywords = {''urgent''}\<rparr>"
  unfolding pay_message_def demo_extractor_def literal_engine_def
  by code_simp

theorem intelligence_merge_idempotent_witness:
  "get_session [''s1'' \<mapsto> fresh_session] ''s1'' = Some fresh_session
   \<and> (\<exists>st1 s1 st2 s2.
         update_intelligence ''t4'' [''s1'' \<mapsto> fresh_session] ''s1''
             (extract_from_message demo_extractor literal_engine pay_message) = Inr (st1, s1)
         \<and> update_intelligence ''t5'' st1 ''s1''
             (extract_from_message demo_extractor literal_engine pay_message) = Inr (st2, s2)
         \<and> bankAccounts (extractedIntelligence s2) = {''XXXX-XXXX-9012''}
         \<and> extractedIntelligence s2 = extractedIntelligence s1)"
proof -
  have found: "get_session [''s1'' \<mapsto> fresh_session] ''s1'' = Some fresh_session"
    by (simp add: get_session_def)
  from intelligence_merge_idempotent
         [of _ demo_extractor literal_engine pay_message "[''s1'' \<mapsto> fresh_session]" "''s1''"
             fresh_session "''t4''" "''t5''"] found
  obtain st1 s1 st2 s2 where
    u: "update_intelligence ''t4'' [''s1'' \<mapsto> fresh_session] ''s1''
          (extract_from_message demo_extractor literal_engine pay_message) = Inr (st1, s1)"
       "update_intelligence ''t5'' st1 ''s1''
          (extract_from_message demo_extractor literal_engine pay_message) = Inr (st2, s2)"
    and e: "extractedIntelligence s1 = merge (extractedIntelligence fresh_session)
              (extract_from_message demo_extractor literal_engine pay_message)"
           "extractedIntelligence s2 = extractedIntelligence s1"
    by blast
  have "bankAccounts (extractedIntelligence s2) = {''XXXX-XXXX-9012''}"
    unfolding e pay_message_intelligence
    by (simp add: merge_def fresh_session_def empty_intelligence_def)
  with found u e show ?thesis by blast
qed

section \<open>Failure of the classifier\<close>

lemma analyze_message_classifier_failure:
  "ml_predict d (lower (msg_text message)) = Inl e \<Longrightarrow>
   fst (analyze_message d re message) = min (rule_score d re (lower (msg_text message))) 1"
  using rule_score_nonneg [of d re "lower (msg_text message)"]
  by (simp add: analyze_message_fst ml_score_def)

text \<open>
  Claim C5 at a load failure.  The two \<open>joblib.load\<close> calls stand in the constructor,
  outside the \<open>try\<close> of \<open>analyze_message\<close>: when the model file cannot be loaded the
  constructor raises, whatever the vectorizer and the patterns are, so there is no
  detector and no rule-only result; the same holds when only the vectorizer file fails.
\<close>

theorem ScamDetector_init_load_failure:
  "ScamDetector_init (\<lambda>path. Inl (LoadError path)) load_vectorizer pats
     = Inl (LoadError ''app/ai_model/models/spam_model.pkl'')
   \<and> ScamDetector_init (\<lambda>path. Inr m) (\<lambda>path. Inl (LoadError path)) pats
       = Inl (LoadError ''app/ai_model/models/tfidf_vectorizer.pkl'')"
  by (simp add: ScamDetector_init_def)

end
